theory Spec2Isabelle
  imports Complex_Main "HOL-Library.AList"
begin

section \<open>Values and the error taxonomy\<close>

text \<open>
  JavaScript values as far as the library distinguishes them. A \<open>HopeRef\<close> is a Hope
  instance, named by its object identity; a \<open>Thenable\<close> is a foreign object with a
  callable \<open>then\<close>; an \<open>Obj\<close> is any other object, such as \<open>{ a: 1 }\<close>. The error classes of the library are constructors of their own:
  \<open>CancelError(message)\<close>, \<open>AggregateError(errors, message)\<close>,
  \<open>SchedulerError(message)\<close>, \<open>JobTimeoutError(jobId, timeout)\<close>,
  \<open>JobCanceledError(jobId)\<close>, and the built-in \<open>Error\<close> and \<open>TypeError\<close>.
  Job ids are the strings \<open>job-N\<close>; a job id is modelled by its number \<open>N\<close>.
\<close>

datatype val =
    Undefined
  | Null
  | Num int
  | Str string
  | Obj nat
  | HopeRef nat
  | Thenable nat
  | Error string
  | TypeError string
  | CancelError string
  | AggregateError "val list" string
  | SchedulerError string
  | JobTimeoutError nat int
  | JobCanceledError nat

text \<open>The test \<open>value && typeof value.then === 'function'\<close>.\<close>

fun is_thenable :: "val \<Rightarrow> bool" where
  "is_thenable (HopeRef _) = True"
| "is_thenable (Thenable _) = True"
| "is_thenable _ = False"

text \<open>The test \<open>value !== null && typeof value === 'object'\<close>.\<close>

fun is_object :: "val \<Rightarrow> bool" where
  "is_object Undefined = False"
| "is_object Null = False"
| "is_object (Num _) = False"
| "is_object (Str _) = False"
| "is_object _ = True"

section \<open>Hope: the deferred value\<close>

datatype hstate = PENDING | FULFILLED | REJECTED

text \<open>
  The fields of a Hope instance. The callback queues hold the closures registered by
  \<open>then\<close> and \<open>onSettle\<close>; their type is a parameter. The creation stack, the unused
  \<open>_timeoutId\<close> and the progress channel are left out: no operation below reads them.
\<close>

record 'cb hope =
  h_state :: hstate
  h_value :: val
  h_reason :: val
  onFulfilledCallbacks :: "'cb list"
  onRejectedCallbacks :: "'cb list"
  h_settled :: bool
  onSettleCallbacks :: "'cb list"
  isCancelable :: bool

text \<open>The constructor's field initialisation, before the executor runs.\<close>

definition new_hope :: "'cb hope" where
  "new_hope = \<lparr> h_state = PENDING, h_value = Undefined, h_reason = Undefined,
                onFulfilledCallbacks = [], onRejectedCallbacks = [],
                h_settled = False, onSettleCallbacks = [], isCancelable = False \<rparr>"

text \<open>
  What a method does beyond updating the instance is returned as a list of effects, in
  the order the source performs them: a console warning, the invocation of a settle hook
  with \<open>(state, payload)\<close>, the invocation of a queued continuation, and the call
  \<open>value.then(val => this._resolve(val), reason => this._reject(reason))\<close> made on a
  thenable on behalf of the Hope with the given identity.
\<close>

datatype 'cb effect =
    Warn string
  | CallSettle 'cb hstate val
  | CallBack 'cb
  | CallThen val nat

text \<open>
  The exceptions: \<open>new Error('Hope already settled')\<close> of strict mode, and the
  \<open>TypeError\<close> of calling \<open>this._deepFreeze\<close>, which is a static method of the class
  and so is \<open>undefined\<close> on an instance. A method that throws returns the exception
  with the instance as it is at the throw.
\<close>

datatype js_error = AlreadySettled | NotAFunction

definition callSettleCallbacks :: "'cb hope \<Rightarrow> 'cb hope \<times> 'cb effect list" where
  "callSettleCallbacks h =
     (let callbacks = onSettleCallbacks h in
      (h\<lparr>onSettleCallbacks := []\<rparr>,
       map (\<lambda>cb. CallSettle cb (h_state h)
                   (if h_state h = FULFILLED then h_value h else h_reason h)) callbacks))"

definition callFulfilledCallbacks :: "'cb hope \<Rightarrow> 'cb hope \<times> 'cb effect list" where
  "callFulfilledCallbacks h =
     (let callbacks = onFulfilledCallbacks h in
      (h\<lparr>onFulfilledCallbacks := []\<rparr>, map CallBack callbacks))"

definition callRejectedCallbacks :: "'cb hope \<Rightarrow> 'cb hope \<times> 'cb effect list" where
  "callRejectedCallbacks h =
     (let callbacks = onRejectedCallbacks h in
      (h\<lparr>onRejectedCallbacks := []\<rparr>, map CallBack callbacks))"

text \<open>
  \<open>_reject(reason)\<close>. The first argument is the static flag \<open>Hope.strict\<close>. A settled
  Hope throws in strict mode and warns otherwise; in both cases it is left as it was.
\<close>

definition h_reject ::
  "bool \<Rightarrow> 'cb hope \<Rightarrow> val \<Rightarrow> js_error \<times> 'cb hope + 'cb hope \<times> 'cb effect list" where
  "h_reject strict h r =
     (if h_settled h then
        (if strict then Inl (AlreadySettled, h)
         else Inr (h, [Warn ''Hope rejected after being settled (ignored)'']))
      else
        (let h1 = h\<lparr>h_settled := True, h_state := REJECTED, h_reason := r\<rparr>;
             (h2, e1) = callSettleCallbacks h1;
             (h3, e2) = callRejectedCallbacks h2
         in Inr (h3, e1 @ e2)))"

text \<open>
  \<open>_resolve(value)\<close> of the Hope with identity \<open>self\<close>; the first two arguments are
  the static flags \<open>Hope.freezeValues\<close> and \<open>Hope.strict\<close>. The source sets
  \<open>_settled\<close> before it looks at the value, and both the self-resolution branch and the
  callbacks handed to a thenable go through \<open>_reject\<close> and \<open>_resolve\<close> again. With
  \<open>freezeValues\<close> set and an object as value, \<open>this._deepFreeze(value)\<close> throws after
  the state and the value are written and before the callbacks are called.
\<close>

definition h_resolve_with ::
  "bool \<Rightarrow> bool \<Rightarrow> nat \<Rightarrow> 'cb hope \<Rightarrow> val \<Rightarrow> js_error \<times> 'cb hope + 'cb hope \<times> 'cb effect list" where
  "h_resolve_with freezeValues strict self h v =
     (if h_settled h then
        (if strict then Inl (AlreadySettled, h)
         else Inr (h, [Warn ''Hope resolved after being settled (ignored)'']))
      else
        (let h1 = h\<lparr>h_settled := True\<rparr> in
         if v = HopeRef self then
           h_reject strict h1 (TypeError ''Hope cannot resolve to itself'')
         else if is_thenable v then
           Inr (h1, [CallThen v self])
         else
           (let h2 = h1\<lparr>h_state := FULFILLED, h_value := v\<rparr> in
            if freezeValues \<and> is_object v then Inl (NotAFunction, h2)
            else
              (let (h3, e1) = callSettleCallbacks h2;
                   (h4, e2) = callFulfilledCallbacks h3
               in Inr (h4, e1 @ e2)))))"

text \<open>\<open>_resolve(value)\<close> with \<open>Hope.freezeValues\<close> at its default, \<open>false\<close>.\<close>

definition h_resolve ::
  "bool \<Rightarrow> nat \<Rightarrow> 'cb hope \<Rightarrow> val \<Rightarrow> js_error \<times> 'cb hope + 'cb hope \<times> 'cb effect list" where
  "h_resolve strict self h v = h_resolve_with False strict self h v"

text \<open>
  The \<open>catch\<close> clause around \<open>value.then(...)\<close> in \<open>_resolve\<close>: an exception raised
  by the thenable's \<open>then\<close> is passed to \<open>_reject\<close>.
\<close>

definition h_resolve_catch ::
  "bool \<Rightarrow> 'cb hope \<Rightarrow> val \<Rightarrow> js_error \<times> 'cb hope + 'cb hope \<times> 'cb effect list" where
  "h_resolve_catch strict h err = h_reject strict h err"

text \<open>
  \<open>_resolvePromise(resolve, reject, x)\<close>, which \<open>then\<close> calls on the Hope it was
  called on (\<open>this\<close>) with \<open>resolve\<close> and \<open>reject\<close> of the chained Hope it returns:
  it calls \<open>reject\<close> with a type error, or subscribes to the thenable \<open>x\<close> under the
  guard \<open>called\<close>, or calls \<open>resolve(x)\<close>.
\<close>

datatype resolution = CallReject val | Subscribe val | CallResolve val

definition h_resolvePromise :: "nat \<Rightarrow> val \<Rightarrow> resolution" where
  "h_resolvePromise this x =
     (if x = HopeRef this then CallReject (TypeError ''Promise cannot be resolved with itself'')
      else if is_thenable x then Subscribe x
      else CallResolve x)"

text \<open>
  The two closures that \<open>_resolve\<close> hands to a thenable, as calls on the Hope:
  \<open>val => this._resolve(val)\<close> and \<open>reason => this._reject(reason)\<close>. A thenable may
  invoke them any number of times; \<open>deliver_all\<close> runs a sequence of such invocations
  in non-strict mode, where none of them throws.
\<close>

datatype delivery = OnFulfilled val | OnRejected val

fun deliver ::
  "bool \<Rightarrow> nat \<Rightarrow> 'cb hope \<Rightarrow> delivery \<Rightarrow> js_error \<times> 'cb hope + 'cb hope \<times> 'cb effect list" where
  "deliver strict self h (OnFulfilled v) = h_resolve strict self h v"
| "deliver strict self h (OnRejected r) = h_reject strict h r"

fun deliver_all :: "nat \<Rightarrow> 'cb hope \<Rightarrow> delivery list \<Rightarrow> 'cb hope" where
  "deliver_all self h [] = h"
| "deliver_all self h (d # ds) =
     (case deliver False self h d of
        Inl (_, h') \<Rightarrow> deliver_all self h' ds
      | Inr (h', _) \<Rightarrow> deliver_all self h' ds)"

section \<open>The runtime: heap of Hopes, microtasks and timers\<close>

text \<open>
  The closures that the scheduler's code registers through \<open>then\<close>, one constructor
  for each call site, with the variables the closure captures:
  \<^item> \<open>JobRunThen id h\<close>: the two handlers of \<open>task.then(...)\<close> in \<open>Job.run\<close> of the job
    \<open>id\<close>, with \<open>resolve\<close> and \<open>reject\<close> of the cancellable Hope \<open>h\<close>;
  \<^item> \<open>TimeoutThen t h\<close>: the two handlers of \<open>this.then(...)\<close> in \<open>timeout\<close>, with the
    timer \<open>t\<close> and \<open>resolve\<close> and \<open>reject\<close> of the returned Hope \<open>h\<close>;
  \<^item> \<open>RunJobThen id\<close>: the two handlers in \<open>Scheduler._runJob\<close>;
  \<^item> \<open>Adopt h\<close>: \<open>val => this._resolve(val)\<close> and \<open>reason => this._reject(reason)\<close>,
    which \<open>_resolve\<close> of the Hope \<open>h\<close> hands to a thenable;
  \<^item> \<open>AnyThen a index\<close>: the two handlers that \<open>Hope.any\<close> registers on the item
    \<open>index\<close>, \<open>resolve\<close> of the Hope \<open>a\<close> that \<open>any\<close> returns and the rejection
    handler with the variables of that call.
\<close>

datatype handler =
    JobRunThen nat nat
  | TimeoutThen nat nat
  | RunJobThen nat
  | Adopt nat
  | AnyThen nat nat

text \<open>
  The callbacks given to \<open>setTimeout\<close>: the expiry of \<open>timeout(ms, reason)\<close> for the
  returned Hope, and the re-queueing of a job in \<open>Scheduler._jobFailed\<close>.
\<close>

datatype timer_callback =
    TimeoutExpired nat val
  | RetryJob nat

text \<open>
  The variables of one call of \<open>Hope.any\<close> that its handlers share: the array
  \<open>items\<close>, the array \<open>errors\<close> and the counter \<open>rejected\<close>. \<open>new Array(n)\<close> is an
  array of \<open>n\<close> holes, which read as \<open>undefined\<close>.
\<close>

record any_vars =
  items :: "val list"
  errors :: "val list"
  rejected :: nat

text \<open>
  The host: the static flag \<open>Hope.freezeValues\<close>, the Hope objects by identity (an
  association list from identities to instances), the variables of the calls of
  \<open>Hope.any\<close> (by the identity of the Hope returned), the FIFO queue of microtasks (a
  continuation and the Hope it was registered on), the armed timers (identity, due
  time, callback), a clock in milliseconds, and \<open>calls\<close>, the trace of the invocations
  of task functions (the id of the job whose \<open>taskFn\<close> was called). \<open>Hope.scheduler\<close>
  and \<open>Hope.strict\<close> have their defaults, \<open>'microtask'\<close> and \<open>false\<close>.
\<close>

record runtime =
  freezeValues :: bool
  hopes :: "(nat \<times> handler hope) list"
  anys :: "(nat \<times> any_vars) list"
  nextHope :: nat
  microtasks :: "(handler \<times> nat) list"
  timers :: "(nat \<times> nat \<times> timer_callback) list"
  nextTimer :: nat
  clock :: nat
  calls :: "nat list"

definition new_runtime :: runtime where
  "new_runtime = \<lparr> freezeValues = False, hopes = [], anys = [], nextHope = 0,
                   microtasks = [], timers = [], nextTimer = 0, clock = 0, calls = [] \<rparr>"

text \<open>\<open>new Hope(...)\<close>: a fresh identity for the given instance.\<close>

definition alloc :: "handler hope \<Rightarrow> runtime \<Rightarrow> nat \<times> runtime" where
  "alloc h r =
     (nextHope r, r\<lparr>hopes := AList.update (nextHope r) h (hopes r), nextHope := nextHope r + 1\<rparr>)"

text \<open>
  \<open>then(onFulfilled, onRejected)\<close> on the Hope \<open>src\<close>: on a pending Hope the
  continuation is pushed on both queues, on a settled one \<open>handleSettlement\<close> queues
  the microtask at once. The chained Hope that \<open>then\<close> returns is dropped by every
  caller below and is not allocated.
\<close>

definition hope_then :: "nat \<Rightarrow> handler \<Rightarrow> runtime \<Rightarrow> runtime" where
  "hope_then src cb r =
     (case map_of (hopes r) src of
        None \<Rightarrow> r
      | Some h \<Rightarrow>
          if h_state h = PENDING then
            r\<lparr>hopes := AList.update src
                 (h\<lparr>onFulfilledCallbacks := onFulfilledCallbacks h @ [cb],
                    onRejectedCallbacks := onRejectedCallbacks h @ [cb]\<rparr>) (hopes r)\<rparr>
          else r\<lparr>microtasks := microtasks r @ [(cb, src)]\<rparr>)"

text \<open>
  The effects of a settlement of the Hope \<open>src\<close>: a queued continuation is
  \<open>() => handleSettlement()\<close> and queues its microtask; the adoption of a Hope
  registers the \<open>Adopt\<close> handlers on it. No settle hook is registered by the code
  modelled here, and a foreign thenable is not called back into.
\<close>

fun perform :: "nat \<Rightarrow> handler effect \<Rightarrow> runtime \<Rightarrow> runtime" where
  "perform src (Warn _) r = r"
| "perform src (CallSettle _ _ _) r = r"
| "perform src (CallBack cb) r = r\<lparr>microtasks := microtasks r @ [(cb, src)]\<rparr>"
| "perform src (CallThen (HopeRef t) self) r = hope_then t (Adopt self) r"
| "perform src (CallThen _ self) r = r"

text \<open>
  \<open>resolve(value)\<close> and \<open>reject(reason)\<close> of the Hope \<open>ref\<close>, called from a handler, a
  timer or an executor. An exception of \<open>_resolve\<close> leaves the Hope as it is at the
  throw; it goes to the caller, where \<open>then\<close> and the constructor catch it and the
  host reports it, none of which touches this Hope again.
\<close>

definition rt_resolve :: "nat \<Rightarrow> val \<Rightarrow> runtime \<Rightarrow> runtime" where
  "rt_resolve ref v r =
     (case map_of (hopes r) ref of
        None \<Rightarrow> r
      | Some h \<Rightarrow>
          (case h_resolve_with (freezeValues r) False ref h v of
             Inl (_, h') \<Rightarrow> r\<lparr>hopes := AList.update ref h' (hopes r)\<rparr>
           | Inr (h', es) \<Rightarrow> fold (perform ref) es (r\<lparr>hopes := AList.update ref h' (hopes r)\<rparr>)))"

definition rt_reject :: "nat \<Rightarrow> val \<Rightarrow> runtime \<Rightarrow> runtime" where
  "rt_reject ref e r =
     (case map_of (hopes r) ref of
        None \<Rightarrow> r
      | Some h \<Rightarrow>
          (case h_reject False h e of
             Inl (_, h') \<Rightarrow> r\<lparr>hopes := AList.update ref h' (hopes r)\<rparr>
           | Inr (h', es) \<Rightarrow> fold (perform ref) es (r\<lparr>hopes := AList.update ref h' (hopes r)\<rparr>)))"

text \<open>\<open>Hope.reject(reason)\<close>.\<close>

definition Hope_reject :: "val \<Rightarrow> runtime \<Rightarrow> nat \<times> runtime" where
  "Hope_reject reason r = (let (h, r1) = alloc new_hope r in (h, rt_reject h reason r1))"

text \<open>
  \<open>setTimeout(callback, ms)\<close> and \<open>clearTimeout(timer)\<close>. The host is Node.js, which
  sets a delay below 1 or above 2147483647 to 1.
\<close>

definition timer_delay :: "int \<Rightarrow> nat" where
  "timer_delay ms = (if ms < 1 \<or> ms > 2147483647 then 1 else nat ms)"

definition setTimeout :: "timer_callback \<Rightarrow> int \<Rightarrow> runtime \<Rightarrow> nat \<times> runtime" where
  "setTimeout cb ms r =
     (nextTimer r,
      r\<lparr>timers := timers r @ [(nextTimer r, clock r + timer_delay ms, cb)],
        nextTimer := nextTimer r + 1\<rparr>)"

definition clearTimeout :: "nat \<Rightarrow> runtime \<Rightarrow> runtime" where
  "clearTimeout t r = r\<lparr>timers := filter (\<lambda>(i, _, _). i \<noteq> t) (timers r)\<rparr>"

text \<open>\<open>timeout(ms, reason)\<close> on the Hope \<open>src\<close>.\<close>

definition hope_timeout :: "nat \<Rightarrow> int \<Rightarrow> val \<Rightarrow> runtime \<Rightarrow> nat \<times> runtime" where
  "hope_timeout src ms reason r =
     (let (h, r1) = alloc new_hope r;
          (t, r2) = setTimeout (TimeoutExpired h reason) ms r1
      in (h, hope_then src (TimeoutThen t h) r2))"

section \<open>The combinator any\<close>

text \<open>The assignment \<open>a[i] = v\<close>; beyond the end JavaScript extends the array.\<close>

definition array_set :: "val list \<Rightarrow> nat \<Rightarrow> val \<Rightarrow> val list" where
  "array_set a i v =
     (if i < length a then a[i := v]
      else a @ replicate (i - length a) Undefined @ [v])"

text \<open>
  The static \<open>Hope.resolve(value)\<close>: a Hope is returned as it is; for a foreign
  thenable a new Hope is created and \<open>value.then(resolve, reject)\<close> is called, into
  which the model does not look (the thenable never calls back); any other value is
  resolved in the executor of a new Hope. There \<open>this._deepFreeze\<close> is the static
  method and does not throw; an exception of \<open>resolve(value)\<close> is caught by the
  constructor and passed to \<open>_reject\<close>.
\<close>

definition Hope_resolve :: "val \<Rightarrow> runtime \<Rightarrow> nat \<times> runtime" where
  "Hope_resolve v r =
     (case v of
        HopeRef h \<Rightarrow> (h, r)
      | _ \<Rightarrow>
          (case alloc new_hope r of
             (h, r1) \<Rightarrow>
               if is_thenable v then (h, r1)
               else
                 (case map_of (hopes r1) h of
                    None \<Rightarrow> (h, r1)
                  | Some h0 \<Rightarrow>
                      (case h_resolve_with (freezeValues r1) False h h0 v of
                         Inl (_, h') \<Rightarrow>
                           (h, rt_reject h (TypeError ''this._deepFreeze is not a function'')
                                 (r1\<lparr>hopes := AList.update h h' (hopes r1)\<rparr>))
                       | Inr (h', es) \<Rightarrow>
                           (h, fold (perform h) es
                                 (r1\<lparr>hopes := AList.update h h' (hopes r1)\<rparr>))))))"

text \<open>
  The rejection handler that \<open>Hope.any\<close> registers on the item \<open>index\<close>:
  \<open>errors[index] = reason; rejected++\<close>, and the rejection of the Hope \<open>a\<close> with the
  aggregate error when \<open>rejected === items.length\<close>.
\<close>

definition any_onRejected :: "nat \<Rightarrow> nat \<Rightarrow> val \<Rightarrow> runtime \<Rightarrow> runtime" where
  "any_onRejected a index reason r =
     (case map_of (anys r) a of
        None \<Rightarrow> r
      | Some v \<Rightarrow>
          (let v1 = v\<lparr>errors := array_set (errors v) index reason, rejected := rejected v + 1\<rparr>;
               r1 = r\<lparr>anys := AList.update a v1 (anys r)\<rparr>
           in if rejected v1 = length (items v1) then
                rt_reject a (AggregateError (errors v1) ''All promises were rejected'') r1
              else r1))"

text \<open>
  One passage of \<open>items.forEach\<close> in \<open>Hope.any\<close>:
  \<open>Hope.resolve(item).then(resolve, reason => ...)\<close>.
\<close>

definition any_subscribe :: "nat \<Rightarrow> val \<times> nat \<Rightarrow> runtime \<Rightarrow> runtime" where
  "any_subscribe a p r =
     (case Hope_resolve (fst p) r of (h, r1) \<Rightarrow> hope_then h (AnyThen a (snd p)) r1)"

text \<open>
  \<open>Hope.any(iterable)\<close>: the Hope returned and the runtime after the call. The
  executor rejects at once for an empty array and subscribes to every item otherwise.
\<close>

definition Hope_any :: "val list \<Rightarrow> runtime \<Rightarrow> nat \<times> runtime" where
  "Hope_any iterable r =
     (case alloc new_hope r of
        (a, r1) \<Rightarrow>
          (let r2 = r1\<lparr>anys := AList.update a
                       \<lparr> items = iterable, errors = replicate (length iterable) Undefined,
                         rejected = 0 \<rparr> (anys r1)\<rparr>
           in if length iterable = 0 then
                (a, rt_reject a (AggregateError [] ''All promises were rejected'') r2)
              else (a, fold (any_subscribe a) (zip iterable [0..<length iterable]) r2)))"

section \<open>Jobs\<close>

datatype jstate = Pending | Running | Completed | Failed | Canceled

record job_options =
  timeout :: int
  retries :: int
  retryDelay :: int
  priority :: int

text \<open>The options object passed to \<open>add\<close>: a key is present or absent.\<close>

record add_options =
  o_timeout :: "int option"
  o_retries :: "int option"
  o_retryDelay :: "int option"
  o_priority :: "int option"

text \<open>
  \<open>{ timeout: options.timeout || 0, ..., ...options }\<close>: the spread comes last, so a
  key that is present keeps its value, also when it is 0, and an absent key takes the
  default.
\<close>

definition job_options_of :: "add_options \<Rightarrow> job_options" where
  "job_options_of opts =
     \<lparr> timeout = (case o_timeout opts of None \<Rightarrow> 0 | Some t \<Rightarrow> t),
       retries = (case o_retries opts of None \<Rightarrow> 0 | Some n \<Rightarrow> n),
       retryDelay = (case o_retryDelay opts of None \<Rightarrow> 1000 | Some d \<Rightarrow> d),
       priority = (case o_priority opts of None \<Rightarrow> 0 | Some p \<Rightarrow> p) \<rparr>"

text \<open>
  What a call of the task function does: it returns a Hope that is already fulfilled
  (as \<open>Hope.resolve(v)\<close>), already rejected, or still pending, or it returns something
  that is no Hope, or it throws. A task function is a closure with a state of its own;
  it is modelled as a function of the number of the call, which \<open>Job.run\<close> counts in
  \<open>attempts\<close>.
\<close>

datatype task_result =
    TaskFulfilled val
  | TaskRejected val
  | TaskPending
  | TaskNotAHope val
  | TaskThrows val

record job =
  j_id :: nat
  taskFn :: "nat \<Rightarrow> task_result"
  options :: job_options
  j_state :: jstate
  j_result :: val
  j_error :: val
  attempts :: nat
  j_hope :: "nat option"
  j_cancel :: "nat option"

text \<open>
  The constructor of \<open>Job\<close>. \<open>_cancel\<close> holds the cancel function of a cancellable
  Hope, modelled by that Hope's identity. The progress and the time stamps are left out.
\<close>

definition new_job :: "nat \<Rightarrow> (nat \<Rightarrow> task_result) \<Rightarrow> add_options \<Rightarrow> job" where
  "new_job i f opts =
     \<lparr> j_id = i, taskFn = f, options = job_options_of opts, j_state = Pending,
       j_result = Null, j_error = Null, attempts = 0, j_hope = None, j_cancel = None \<rparr>"

text \<open>
  The decimal digits of a number, for the messages. JavaScript prints a whole number
  below \<open>10^21\<close> with all its digits and a larger one in exponent notation, which is
  not modelled: the message of a timeout is that of the source for timeouts below
  \<open>10^21\<close> ms.
\<close>

fun digits :: "nat \<Rightarrow> nat list" where
  "digits n = (if n < 10 then [n] else digits (n div 10) @ [n mod 10])"

definition string_of_nat :: "nat \<Rightarrow> string" where
  "string_of_nat n = map (\<lambda>d. char_of (48 + d)) (digits n)"

definition job_name :: "nat \<Rightarrow> string" where
  "job_name i = ''job-'' @ string_of_nat i"

definition timeout_message :: "nat \<Rightarrow> int \<Rightarrow> string" where
  "timeout_message i ms =
     ''Job '' @ job_name i @ '' timed out after '' @ string_of_nat (nat ms) @ ''ms''"

text \<open>The Hope a task function returned, as an instance in the given state.\<close>

definition settled_hope :: "hstate \<Rightarrow> val \<Rightarrow> handler hope" where
  "settled_hope st v =
     (if st = FULFILLED then new_hope\<lparr>h_settled := True, h_state := FULFILLED, h_value := v\<rparr>
      else new_hope\<lparr>h_settled := True, h_state := REJECTED, h_reason := v\<rparr>)"

text \<open>
  \<open>Job.run()\<close>: the Hope returned, the job and the runtime after the call. The
  executor of \<open>Hope.cancellable\<close> calls the task function; an exception there is
  caught by the constructor of Hope and rejects the Hope.
\<close>

definition job_run :: "job \<Rightarrow> runtime \<Rightarrow> nat \<times> job \<times> runtime" where
  "job_run j r =
     (if j_state j \<noteq> Pending then
        (let (h, r1) = Hope_reject (Error (''Job '' @ job_name (j_id j) @ '' is not pending'')) r
         in (h, j, r1))
      else
        (let j1 = j\<lparr>j_state := Running, attempts := attempts j + 1\<rparr>;
             (h1, r1) = alloc new_hope r;
             r2 = r1\<lparr>calls := calls r1 @ [j_id j1]\<rparr>;
             r3 = (case taskFn j1 (attempts j1) of
                     TaskThrows e \<Rightarrow> rt_reject h1 e r2
                   | TaskNotAHope _ \<Rightarrow>
                       rt_reject h1 (TypeError ''Task must return a Hope instance'') r2
                   | TaskFulfilled v \<Rightarrow>
                       (let (t, r') = alloc (settled_hope FULFILLED v) r2
                        in hope_then t (JobRunThen (j_id j1) h1) r')
                   | TaskRejected e \<Rightarrow>
                       (let (t, r') = alloc (settled_hope REJECTED e) r2
                        in hope_then t (JobRunThen (j_id j1) h1) r')
                   | TaskPending \<Rightarrow>
                       (let (t, r') = alloc new_hope r2
                        in hope_then t (JobRunThen (j_id j1) h1) r'));
             r4 = r3\<lparr>hopes := AList.map_entry h1 (\<lambda>h. h\<lparr>isCancelable := True\<rparr>) (hopes r3)\<rparr>;
             j2 = j1\<lparr>j_hope := Some h1, j_cancel := Some h1\<rparr>
         in if timeout (options j2) > 0 then
              (let (h2, r5) = hope_timeout h1 (timeout (options j2))
                                (Str (timeout_message (j_id j2) (timeout (options j2)))) r4
               in (h2, j2\<lparr>j_hope := Some h2\<rparr>, r5))
            else (h1, j2, r4)))"

text \<open>
  \<open>Job.cancel()\<close>. \<open>this._cancel()\<close> is the cancel function of \<open>Hope.cancellable\<close>
  with its default reason: \<open>reject(new CancelError('Canceled'))\<close>.
\<close>

definition job_cancel :: "job \<Rightarrow> runtime \<Rightarrow> bool \<times> job \<times> runtime" where
  "job_cancel j r =
     (case (j_state j, j_cancel j) of
        (Running, Some h) \<Rightarrow> (True, j\<lparr>j_state := Canceled\<rparr>, rt_reject h (CancelError ''Canceled'') r)
      | (Pending, _) \<Rightarrow> (True, j\<lparr>j_state := Canceled\<rparr>, r)
      | _ \<Rightarrow> (False, j, r))"

section \<open>The scheduler\<close>

record stats =
  totalJobs :: nat
  s_completedJobs :: nat
  s_failedJobs :: nat
  s_canceledJobs :: nat

text \<open>
  The fields of a \<open>Scheduler\<close> instance, with the runtime it runs in (\<open>rt\<close>). The
  \<open>Map\<close> \<open>jobs\<close> is an association list in insertion order. The arrays
  \<open>pendingJobs\<close> and \<open>completedJobs\<close> hold references to the \<open>Job\<close> objects of
  \<open>jobs\<close>; they are lists of job ids, and a job is read through \<open>jobs\<close>.
  \<open>runningJobs\<close> is a \<open>Set\<close> of ids: a list without repetition, in insertion order.
  \<open>concurrency\<close> is whatever number the caller passed: the constructor checks
  nothing, so it may be negative or a fraction (the finite numbers are modelled, as
  rationals; \<open>Infinity\<close>, \<open>NaN\<close> and values that are not numbers are left out).
  \<open>maxQueueSize\<close> is \<open>None\<close> for
  \<open>Infinity\<close>. \<open>_idleResolve\<close> is the \<open>resolve\<close> of the idle Hope, modelled by that
  Hope's identity. The statistics of time are left out.
\<close>

record scheduler =
  concurrency :: rat
  maxQueueSize :: "nat option"
  autoStart :: bool
  jobs :: "(nat \<times> job) list"
  pendingJobs :: "nat list"
  runningJobs :: "nat list"
  completedJobs :: "nat list"
  nextJobId :: nat
  isRunning :: bool
  idleHope :: "nat option"
  idleResolve :: "nat option"
  stats :: stats
  rt :: runtime

text \<open>\<open>Set.add\<close>, \<open>Set.delete\<close> and \<open>Set.size\<close>.\<close>

definition set_add :: "nat \<Rightarrow> nat list \<Rightarrow> nat list" where
  "set_add x xs = (if x \<in> set xs then xs else xs @ [x])"

definition set_delete :: "nat \<Rightarrow> nat list \<Rightarrow> nat list" where
  "set_delete x xs = removeAll x xs"

definition set_size :: "nat list \<Rightarrow> nat" where
  "set_size xs = length xs"

text \<open>
  \<open>_checkIdle()\<close>. \<open>this._idleResolve()\<close> resolves the idle Hope with \<open>undefined\<close>.
\<close>

definition checkIdle :: "scheduler \<Rightarrow> scheduler" where
  "checkIdle s =
     (case idleResolve s of
        Some h \<Rightarrow>
          if set_size (runningJobs s) = 0 \<and> length (pendingJobs s) = 0 then
            s\<lparr>rt := rt_resolve h Undefined (rt s), idleHope := None, idleResolve := None\<rparr>
          else s
      | None \<Rightarrow> s)"

text \<open>\<open>_runJob(job)\<close>: \<open>job.run().then(...)\<close>.\<close>

definition runJob :: "nat \<Rightarrow> scheduler \<Rightarrow> scheduler" where
  "runJob i s =
     (case map_of (jobs s) i of
        None \<Rightarrow> s
      | Some j \<Rightarrow>
          (case job_run j (rt s) of
             (h, j', r1) \<Rightarrow>
               s\<lparr>jobs := AList.update i j' (jobs s), rt := hope_then h (RunJobThen i) r1\<rparr>))"

text \<open>The body of the loop of \<open>_processQueue\<close>, and the loop.\<close>

definition pump_body :: "scheduler \<Rightarrow> scheduler" where
  "pump_body s =
     (let i = hd (pendingJobs s);
          s1 = s\<lparr>pendingJobs := tl (pendingJobs s)\<rparr>;
          s2 = s1\<lparr>runningJobs := set_add i (runningJobs s1)\<rparr>
      in runJob i s2)"

function pump :: "scheduler \<Rightarrow> scheduler" where
  "pump s =
     (if of_nat (set_size (runningJobs s)) < concurrency s \<and> length (pendingJobs s) > 0
      then pump (pump_body s) else s)"
  by pat_completeness auto
termination
  by (relation "measure (\<lambda>s. length (pendingJobs s))")
     (auto simp: pump_body_def runJob_def Let_def split: option.splits prod.splits)

declare pump.simps [simp del]

text \<open>\<open>_processQueue()\<close>: the guard, the loop, and the closing \<open>if\<close>.\<close>

definition checkIdle_if_empty :: "scheduler \<Rightarrow> scheduler" where
  "checkIdle_if_empty s =
     (if set_size (runningJobs s) = 0 \<and> length (pendingJobs s) = 0 then checkIdle s else s)"

definition processQueue :: "scheduler \<Rightarrow> scheduler" where
  "processQueue s = (if \<not> isRunning s then s else checkIdle_if_empty (pump s))"

text \<open>
  \<open>pendingJobs.sort((a, b) => b.options.priority - a.options.priority)\<close>: a stable
  sort by descending priority.
\<close>

definition job_priority :: "scheduler \<Rightarrow> nat \<Rightarrow> int" where
  "job_priority s i = (case map_of (jobs s) i of None \<Rightarrow> 0 | Some j \<Rightarrow> priority (options j))"

definition sort_pending :: "scheduler \<Rightarrow> scheduler" where
  "sort_pending s = s\<lparr>pendingJobs := sort_key (\<lambda>i. - job_priority s i) (pendingJobs s)\<rparr>"

text \<open>
  \<open>add(taskFn, options)\<close>: the id returned or the exception thrown, and the scheduler
  after the call.
\<close>

definition add :: "(nat \<Rightarrow> task_result) \<Rightarrow> add_options \<Rightarrow> scheduler \<Rightarrow> (val + nat) \<times> scheduler" where
  "add f opts s =
     (if (case maxQueueSize s of None \<Rightarrow> False | Some m \<Rightarrow> length (pendingJobs s) \<ge> m) then
        (Inl (SchedulerError ''Queue is full''), s)
      else
        (let i = nextJobId s;
             s1 = s\<lparr>nextJobId := nextJobId s + 1\<rparr>;
             j = new_job i f opts;
             s2 = s1\<lparr>jobs := AList.update i j (jobs s1)\<rparr>;
             s3 = s2\<lparr>pendingJobs := pendingJobs s2 @ [i]\<rparr>;
             s4 = s3\<lparr>stats := (stats s3)\<lparr>totalJobs := totalJobs (stats s3) + 1\<rparr>\<rparr>;
             s5 = sort_pending s4;
             s6 = (if isRunning s5 then processQueue s5 else s5)
         in (Inr i, s6)))"

text \<open>\<open>start()\<close>.\<close>

definition start :: "scheduler \<Rightarrow> scheduler" where
  "start s = (if isRunning s then s else processQueue (s\<lparr>isRunning := True\<rparr>))"

text \<open>
  The options object of the constructor. In \<open>{ concurrency: options.concurrency || 1,
  ..., ...options }\<close> the spread comes last: a key that is present keeps its value, an
  absent one takes the default.
\<close>

record scheduler_options =
  o_concurrency :: "rat option"
  o_maxQueueSize :: "nat option"
  o_autoStart :: "bool option"

definition configured_concurrency :: "scheduler_options \<Rightarrow> rat" where
  "configured_concurrency opts = (case o_concurrency opts of None \<Rightarrow> 1 | Some c \<Rightarrow> c)"

text \<open>
  \<open>new Scheduler(options)\<close>: the initialisation of the fields, and then \<open>start()\<close>
  when \<open>autoStart\<close> is set.
\<close>

definition Scheduler_fields :: "scheduler_options \<Rightarrow> scheduler" where
  "Scheduler_fields opts =
     \<lparr> concurrency = configured_concurrency opts,
       maxQueueSize = o_maxQueueSize opts,
       autoStart = (case o_autoStart opts of None \<Rightarrow> True | Some b \<Rightarrow> b),
       jobs = [], pendingJobs = [], runningJobs = [], completedJobs = [],
       nextJobId = 1, isRunning = False, idleHope = None, idleResolve = None,
       stats = \<lparr> totalJobs = 0, s_completedJobs = 0, s_failedJobs = 0,
                 s_canceledJobs = 0 \<rparr>,
       rt = new_runtime \<rparr>"

definition new_Scheduler :: "scheduler_options \<Rightarrow> scheduler" where
  "new_Scheduler opts =
     (let s = Scheduler_fields opts in if autoStart s then start s else s)"

text \<open>
  The application of \<open>job.cancel()\<close> to the job with the given id: whether it
  canceled, and the scheduler with the job and the runtime updated.
\<close>

definition cancel_job_object :: "nat \<Rightarrow> scheduler \<Rightarrow> bool \<times> scheduler" where
  "cancel_job_object i s =
     (case map_of (jobs s) i of
        None \<Rightarrow> (False, s)
      | Some j \<Rightarrow>
          (case job_cancel j (rt s) of
             (c, j', r') \<Rightarrow> (c, s\<lparr>jobs := AList.update i j' (jobs s), rt := r'\<rparr>)))"

text \<open>\<open>stop()\<close>.\<close>

definition stop :: "scheduler \<Rightarrow> scheduler" where
  "stop s =
     (let s1 = s\<lparr>isRunning := False\<rparr>;
          s2 = fold (\<lambda>i t. snd (cancel_job_object i t)) (pendingJobs s1) s1;
          s3 = s2\<lparr>pendingJobs := []\<rparr>
      in fold (\<lambda>i t. snd (cancel_job_object i t)) (runningJobs s3) s3)"

text \<open>
  \<open>onIdle()\<close>: the Hope returned and the scheduler after the call. The executor
  stores \<open>resolve\<close> and resolves at once when nothing runs and nothing waits; the
  assignment to \<open>_idleHope\<close> follows the constructor.
\<close>

definition onIdle :: "scheduler \<Rightarrow> nat \<times> scheduler" where
  "onIdle s =
     (case idleHope s of
        Some h \<Rightarrow> (h, s)
      | None \<Rightarrow>
          (let (h, r1) = alloc new_hope (rt s);
               s1 = s\<lparr>rt := r1, idleResolve := Some h\<rparr>;
               s2 = (if set_size (runningJobs s1) = 0 \<and> length (pendingJobs s1) = 0
                     then s1\<lparr>rt := rt_resolve h Undefined (rt s1)\<rparr> else s1);
               s3 = s2\<lparr>idleHope := Some h\<rparr>
           in (h, s3)))"

text \<open>\<open>cancelJob(jobId)\<close>.\<close>

definition cancelJob :: "nat \<Rightarrow> scheduler \<Rightarrow> bool \<times> scheduler" where
  "cancelJob i s =
     (case map_of (jobs s) i of
        None \<Rightarrow> (False, s)
      | Some _ \<Rightarrow>
          (let (canceled, s1) = cancel_job_object i s
           in if canceled then
                (let s2 = s1\<lparr>pendingJobs := remove1 i (pendingJobs s1)\<rparr>;
                     s3 = s2\<lparr>runningJobs := set_delete i (runningJobs s2)\<rparr>;
                     s4 = s3\<lparr>stats := (stats s3)\<lparr>s_canceledJobs := s_canceledJobs (stats s3) + 1\<rparr>\<rparr>
                 in (canceled, checkIdle s4))
              else (canceled, s1)))"

text \<open>
  \<open>cancelAll()\<close>: the ids canceled and the scheduler after the call. \<open>cancel_counted\<close>
  is the body of both of its loops.
\<close>

definition cancel_counted :: "nat \<Rightarrow> nat list \<times> scheduler \<Rightarrow> nat list \<times> scheduler" where
  "cancel_counted i acc =
     (case acc of (canceledIds, s) \<Rightarrow>
        (case cancel_job_object i s of
           (c, s1) \<Rightarrow>
             if c then
               (canceledIds @ [i],
                s1\<lparr>stats := (stats s1)\<lparr>s_canceledJobs := s_canceledJobs (stats s1) + 1\<rparr>\<rparr>)
             else (canceledIds, s1)))"

definition cancelAll :: "scheduler \<Rightarrow> nat list \<times> scheduler" where
  "cancelAll s =
     (let (ids1, s1) = fold cancel_counted (pendingJobs s) ([], s);
          s2 = s1\<lparr>pendingJobs := []\<rparr>;
          (ids2, s3) = fold cancel_counted (runningJobs s2) (ids1, s2);
          s4 = s3\<lparr>runningJobs := []\<rparr>
      in (ids2, checkIdle s4))"

text \<open>\<open>_jobCompleted(jobId, result)\<close>.\<close>

definition jobCompleted :: "nat \<Rightarrow> val \<Rightarrow> scheduler \<Rightarrow> scheduler" where
  "jobCompleted i res s =
     (let s1 = s\<lparr>runningJobs := set_delete i (runningJobs s)\<rparr>;
          s2 = (case map_of (jobs s1) i of
                  None \<Rightarrow> s1
                | Some j \<Rightarrow>
                    s1\<lparr>jobs := AList.update i (j\<lparr>j_result := res, j_state := Completed\<rparr>) (jobs s1),
                       completedJobs := completedJobs s1 @ [i],
                       stats := (stats s1)\<lparr>s_completedJobs := s_completedJobs (stats s1) + 1\<rparr>\<rparr>)
      in processQueue s2)"

text \<open>
  \<open>error instanceof JobTimeoutError\<close>, and \<open>_jobFailed(jobId, error)\<close>. The callback
  of its timer is \<open>retry_job\<close>.
\<close>

fun is_JobTimeoutError :: "val \<Rightarrow> bool" where
  "is_JobTimeoutError (JobTimeoutError _ _) = True"
| "is_JobTimeoutError _ = False"

definition jobFailed :: "nat \<Rightarrow> val \<Rightarrow> scheduler \<Rightarrow> scheduler" where
  "jobFailed i err s =
     (case map_of (jobs s) i of
        None \<Rightarrow> s
      | Some j \<Rightarrow>
          if int (attempts j) \<le> retries (options j) \<and> \<not> is_JobTimeoutError err then
            s\<lparr>jobs := AList.update i (j\<lparr>j_state := Pending, j_error := Null\<rparr>) (jobs s),
              rt := snd (setTimeout (RetryJob i) (retryDelay (options j)) (rt s))\<rparr>
          else
            processQueue
              (s\<lparr>jobs := AList.update i (j\<lparr>j_state := Failed, j_error := err\<rparr>) (jobs s),
                 runningJobs := set_delete i (runningJobs s),
                 completedJobs := completedJobs s @ [i],
                 stats := (stats s)\<lparr>s_failedJobs := s_failedJobs (stats s) + 1\<rparr>\<rparr>))"

definition retry_job :: "nat \<Rightarrow> scheduler \<Rightarrow> scheduler" where
  "retry_job i s = processQueue (sort_pending (s\<lparr>pendingJobs := pendingJobs s @ [i]\<rparr>))"

section \<open>The event loop\<close>

text \<open>
  The two handlers of \<open>task.then(...)\<close> in \<open>Job.run\<close>: they write the outcome into
  the job and settle the cancellable Hope.
\<close>

definition job_onFulfilled :: "nat \<Rightarrow> nat \<Rightarrow> val \<Rightarrow> scheduler \<Rightarrow> scheduler" where
  "job_onFulfilled i h res s =
     s\<lparr>jobs := AList.map_entry i (\<lambda>j. j\<lparr>j_result := res, j_state := Completed\<rparr>) (jobs s),
       rt := rt_resolve h res (rt s)\<rparr>"

definition job_onRejected :: "nat \<Rightarrow> nat \<Rightarrow> val \<Rightarrow> scheduler \<Rightarrow> scheduler" where
  "job_onRejected i h err s =
     s\<lparr>jobs := AList.map_entry i (\<lambda>j. j\<lparr>j_error := err, j_state := Failed\<rparr>) (jobs s),
       rt := rt_reject h err (rt s)\<rparr>"

text \<open>
  \<open>scheduleTask\<close> of \<open>then\<close> for a continuation registered on the Hope \<open>src\<close>: the
  fulfilment handler when \<open>src\<close> is fulfilled, the rejection handler otherwise.
\<close>

fun run_handler :: "handler \<Rightarrow> 'cb hope \<Rightarrow> scheduler \<Rightarrow> scheduler" where
  "run_handler (JobRunThen i h) src s =
     (if h_state src = FULFILLED then job_onFulfilled i h (h_value src) s
      else job_onRejected i h (h_reason src) s)"
| "run_handler (TimeoutThen t h) src s =
     (if h_state src = FULFILLED then s\<lparr>rt := rt_resolve h (h_value src) (clearTimeout t (rt s))\<rparr>
      else s\<lparr>rt := rt_reject h (h_reason src) (clearTimeout t (rt s))\<rparr>)"
| "run_handler (RunJobThen i) src s =
     (if h_state src = FULFILLED then jobCompleted i (h_value src) s
      else jobFailed i (h_reason src) s)"
| "run_handler (Adopt h) src s =
     (if h_state src = FULFILLED then s\<lparr>rt := rt_resolve h (h_value src) (rt s)\<rparr>
      else s\<lparr>rt := rt_reject h (h_reason src) (rt s)\<rparr>)"
| "run_handler (AnyThen a index) src s =
     (if h_state src = FULFILLED then s\<lparr>rt := rt_resolve a (h_value src) (rt s)\<rparr>
      else s\<lparr>rt := any_onRejected a index (h_reason src) (rt s)\<rparr>)"

definition run_microtask :: "handler \<times> nat \<Rightarrow> scheduler \<Rightarrow> scheduler" where
  "run_microtask m s =
     (case map_of (hopes (rt s)) (snd m) of
        None \<Rightarrow> s
      | Some src \<Rightarrow> run_handler (fst m) src s)"

text \<open>
  The callback of a timer: \<open>reject(typeof reason === 'string' ? new Error(reason) :
  reason)\<close> of \<open>timeout\<close>, and the re-queueing of \<open>_jobFailed\<close>.
\<close>

fun fire :: "timer_callback \<Rightarrow> scheduler \<Rightarrow> scheduler" where
  "fire (TimeoutExpired h reason) s =
     s\<lparr>rt := rt_reject h (case reason of Str m \<Rightarrow> Error m | _ \<Rightarrow> reason) (rt s)\<rparr>"
| "fire (RetryJob i) s = retry_job i s"

text \<open>The timer that fires next: the earliest due, the first armed among equals.\<close>

fun earliest :: "(nat \<times> nat \<times> timer_callback) list \<Rightarrow> (nat \<times> nat \<times> timer_callback) option" where
  "earliest [] = None"
| "earliest (t # ts) =
     (case earliest ts of
        None \<Rightarrow> Some t
      | Some u \<Rightarrow> if fst (snd t) \<le> fst (snd u) then Some t else Some u)"

text \<open>
  One turn of the host: the first microtask if there is one, else the next timer, with
  the clock moved to its due time; \<open>None\<close> when nothing is left to run.
\<close>

definition turn :: "scheduler \<Rightarrow> scheduler option" where
  "turn s =
     (case microtasks (rt s) of
        m # ms \<Rightarrow> Some (run_microtask m (s\<lparr>rt := (rt s)\<lparr>microtasks := ms\<rparr>\<rparr>))
      | [] \<Rightarrow>
          (case earliest (timers (rt s)) of
             None \<Rightarrow> None
           | Some (t, due, cb) \<Rightarrow>
               Some (fire cb (s\<lparr>rt := (clearTimeout t (rt s))\<lparr>clock := max (clock (rt s)) due\<rparr>\<rparr>))))"

text \<open>
  The host runs until nothing is left; with fuel, as a task may be retried for ever.
  \<open>None\<close> is the loop that has not come to rest within the fuel.
\<close>

fun run :: "nat \<Rightarrow> scheduler \<Rightarrow> scheduler option" where
  "run 0 s = (case turn s of None \<Rightarrow> Some s | Some _ \<Rightarrow> None)"
| "run (Suc n) s = (case turn s of None \<Rightarrow> Some s | Some s' \<Rightarrow> run n s')"

section \<open>Observation and scenarios\<close>

text \<open>\<open>getJob(jobId)\<close> and \<open>getStatus()\<close>.\<close>

definition getJob :: "nat \<Rightarrow> scheduler \<Rightarrow> job option" where
  "getJob i s = map_of (jobs s) i"

definition getStatus :: "scheduler \<Rightarrow> bool \<times> nat \<times> nat \<times> nat \<times> stats" where
  "getStatus s = (isRunning s, length (pendingJobs s), set_size (runningJobs s),
                  length (completedJobs s), stats s)"

text \<open>The empty options objects, \<open>{}\<close>.\<close>

definition no_options :: add_options where
  "no_options = \<lparr> o_timeout = None, o_retries = None, o_retryDelay = None, o_priority = None \<rparr>"

definition default_scheduler :: scheduler_options where
  "default_scheduler = \<lparr> o_concurrency = None, o_maxQueueSize = None, o_autoStart = None \<rparr>"

text \<open>
  The getters \<open>state\<close>, \<open>value\<close> and \<open>reason\<close> of the Hope \<open>h\<close> in the runtime of a
  scheduler, and a runtime run by the host, with an idle \<open>new Scheduler()\<close> beside it.
\<close>

definition outcome :: "nat \<Rightarrow> scheduler \<Rightarrow> (hstate \<times> val \<times> val) option" where
  "outcome h s = map_option (\<lambda>x. (h_state x, h_value x, h_reason x)) (map_of (hopes (rt s)) h)"

definition host :: "runtime \<Rightarrow> scheduler" where
  "host r = (new_Scheduler default_scheduler)\<lparr>rt := r\<rparr>"

text \<open>
  Task functions: one that returns a rejected Hope on its first two calls and
  \<open>Hope.resolve('ok')\<close> from the third on; one that returns \<open>Hope.resolve(label)\<close>;
  one that returns a Hope that never settles, \<open>new Hope(() => {})\<close>.
\<close>

definition flaky_task :: "nat \<Rightarrow> task_result" where
  "flaky_task n = (if n \<le> 2 then TaskRejected (Error ''boom'') else TaskFulfilled (Str ''ok''))"

definition label_task :: "string \<Rightarrow> nat \<Rightarrow> task_result" where
  "label_task l n = TaskFulfilled (Str l)"

definition hanging_task :: "nat \<Rightarrow> task_result" where
  "hanging_task n = TaskPending"

text \<open>The four calls of \<open>add\<close> of the priority scenario, A, B, C, D in this order.\<close>

definition add_ABCD :: "scheduler \<Rightarrow> scheduler" where
  "add_ABCD s0 =
     (case add (label_task ''A'') (no_options\<lparr>o_priority := Some 1\<rparr>) s0 of (_, s1) \<Rightarrow>
      case add (label_task ''B'') (no_options\<lparr>o_priority := Some 10\<rparr>) s1 of (_, s2) \<Rightarrow>
      case add (label_task ''C'') (no_options\<lparr>o_priority := Some 5\<rparr>) s2 of (_, s3) \<Rightarrow>
      snd (add (label_task ''D'') (no_options\<lparr>o_priority := Some 100\<rparr>) s3))"

text \<open>
  The order in which the task functions ran: for each call in the trace, the label
  that the task of that job resolves with.
\<close>

definition executionOrder :: "scheduler \<Rightarrow> val list" where
  "executionOrder s =
     map (\<lambda>i. case getJob i s of
                 None \<Rightarrow> Undefined
               | Some j \<Rightarrow> (case taskFn j 1 of TaskFulfilled l \<Rightarrow> l | _ \<Rightarrow> Undefined))
         (calls (rt s))"

text \<open>
  A scheduler whose queue is full: \<open>new Scheduler({ maxQueueSize: 1, autoStart: false })\<close>
  after one \<open>add\<close>.
\<close>

definition full_scheduler :: scheduler where
  "full_scheduler =
     snd (add hanging_task no_options
            (new_Scheduler (default_scheduler\<lparr>o_maxQueueSize := Some 1, o_autoStart := Some False\<rparr>)))"

section \<open>The moments of a scheduler\<close>

text \<open>
  The states in which the scheduler constructed with the given options can be found at
  any moment, between any two statements. The first rule is the state after the
  constructor has initialised the fields. Every other rule is one statement of the class
  \<open>Scheduler\<close> that writes a field, executed alone:
  \<^item> \<open>this._nextJobId++\<close>;
  \<^item> on \<open>pendingJobs\<close>: \<open>push(job)\<close>, \<open>sort(...)\<close>, \<open>shift()\<close>, \<open>splice(pendingIndex, 1)\<close>
    and \<open>this.pendingJobs = []\<close>;
  \<^item> on \<open>runningJobs\<close>: \<open>add(job.id)\<close>, \<open>delete(jobId)\<close> and \<open>clear()\<close>;
  \<^item> \<open>this.completedJobs.push(job)\<close>;
  \<^item> the assignments to \<open>_isRunning\<close>, \<open>_idleHope\<close> and \<open>_idleResolve\<close>;
  \<^item> the four increments of the counters of \<open>stats\<close>.
  The statements may follow each other in any order, which is more than the methods
  do: a statement inside a method, a method called by a task function while the loop of
  \<open>_processQueue\<close> runs, and timers that fire in any order are all covered. The only
  condition kept is the one under which \<open>runningJobs.add\<close> executes: it is the second
  statement of the body of the loop, after \<open>shift()\<close>, which leaves \<open>runningJobs\<close> as
  the loop condition \<open>runningJobs.size < concurrency\<close> found it. What is not a field
  of the scheduler is written by rule \<open>m_outside\<close>: the \<open>Job\<close> objects of the map
  \<open>jobs\<close> (and \<open>jobs.set\<close>), and the Hopes, queues and timers of the host;
  \<open>options\<close> is written by no statement.
\<close>

inductive moment :: "scheduler_options \<Rightarrow> scheduler \<Rightarrow> bool" for opts :: scheduler_options where
  m_fields: "moment opts (Scheduler_fields opts)"
| m_outside: "moment opts s \<Longrightarrow> moment opts (s\<lparr>jobs := js, rt := r\<rparr>)"
| m_nextJobId: "moment opts s \<Longrightarrow> moment opts (s\<lparr>nextJobId := nextJobId s + 1\<rparr>)"
| m_push: "moment opts s \<Longrightarrow> moment opts (s\<lparr>pendingJobs := pendingJobs s @ [i]\<rparr>)"
| m_sort: "moment opts s \<Longrightarrow> moment opts (sort_pending s)"
| m_shift: "moment opts s \<Longrightarrow> moment opts (s\<lparr>pendingJobs := tl (pendingJobs s)\<rparr>)"
| m_splice: "moment opts s \<Longrightarrow> moment opts (s\<lparr>pendingJobs := remove1 i (pendingJobs s)\<rparr>)"
| m_empty: "moment opts s \<Longrightarrow> moment opts (s\<lparr>pendingJobs := []\<rparr>)"
| m_running_add:
    "moment opts s \<Longrightarrow> of_nat (set_size (runningJobs s)) < concurrency s \<Longrightarrow>
     moment opts (s\<lparr>runningJobs := set_add i (runningJobs s)\<rparr>)"
| m_running_delete: "moment opts s \<Longrightarrow> moment opts (s\<lparr>runningJobs := set_delete i (runningJobs s)\<rparr>)"
| m_running_clear: "moment opts s \<Longrightarrow> moment opts (s\<lparr>runningJobs := []\<rparr>)"
| m_archive: "moment opts s \<Longrightarrow> moment opts (s\<lparr>completedJobs := completedJobs s @ [i]\<rparr>)"
| m_isRunning: "moment opts s \<Longrightarrow> moment opts (s\<lparr>isRunning := b\<rparr>)"
| m_idleHope: "moment opts s \<Longrightarrow> moment opts (s\<lparr>idleHope := h\<rparr>)"
| m_idleResolve: "moment opts s \<Longrightarrow> moment opts (s\<lparr>idleResolve := h\<rparr>)"
| m_totalJobs:
    "moment opts s \<Longrightarrow> moment opts (s\<lparr>stats := (stats s)\<lparr>totalJobs := totalJobs (stats s) + 1\<rparr>\<rparr>)"
| m_completedJobs:
    "moment opts s \<Longrightarrow>
     moment opts (s\<lparr>stats := (stats s)\<lparr>s_completedJobs := s_completedJobs (stats s) + 1\<rparr>\<rparr>)"
| m_failedJobs:
    "moment opts s \<Longrightarrow>
     moment opts (s\<lparr>stats := (stats s)\<lparr>s_failedJobs := s_failedJobs (stats s) + 1\<rparr>\<rparr>)"
| m_canceledJobs:
    "moment opts s \<Longrightarrow>
     moment opts (s\<lparr>stats := (stats s)\<lparr>s_canceledJobs := s_canceledJobs (stats s) + 1\<rparr>\<rparr>)"

section \<open>The methods stay within the moments\<close>

text \<open>
  Every method of the scheduler, every handler it registers and every turn of the host
  leads from a moment to a moment: the executions of the program are among the
  sequences of statements that \<open>moment\<close> allows. In the loop of \<open>_processQueue\<close> the
  states after \<open>shift()\<close> and after \<open>runningJobs.add\<close> are moments too.
\<close>

lemma moment_rt: "moment opts s \<Longrightarrow> moment opts (s\<lparr>rt := r\<rparr>)"
  using m_outside [where s = s and js = "jobs s" and r = r] by simp

lemma moment_jobs: "moment opts s \<Longrightarrow> moment opts (s\<lparr>jobs := js\<rparr>)"
  using m_outside [where s = s and js = js and r = "rt s"] by simp

lemma moment_checkIdle: "moment opts s \<Longrightarrow> moment opts (checkIdle s)"
proof -
  assume m: "moment opts s"
  have "moment opts (s\<lparr>rt := r, idleHope := None, idleResolve := None\<rparr>)" for r
    using m_idleResolve [OF m_idleHope [OF moment_rt [OF m, of r], of None], of None] by simp
  with m show ?thesis
    by (simp add: checkIdle_def split: option.splits)
qed

lemma moment_runJob: "moment opts s \<Longrightarrow> moment opts (runJob i s)"
  by (auto simp: runJob_def m_outside split: option.splits prod.splits)

lemma moment_inside_loop:
  assumes "moment opts s" and "of_nat (set_size (runningJobs s)) < concurrency s"
  shows "moment opts (s\<lparr>pendingJobs := tl (pendingJobs s)\<rparr>)"
    and "moment opts (s\<lparr>pendingJobs := tl (pendingJobs s),
                        runningJobs := set_add (hd (pendingJobs s)) (runningJobs s)\<rparr>)"
    and "moment opts (pump_body s)"
proof -
  show a: "moment opts (s\<lparr>pendingJobs := tl (pendingJobs s)\<rparr>)"
    using assms(1) by (rule m_shift)
  show b: "moment opts (s\<lparr>pendingJobs := tl (pendingJobs s),
                        runningJobs := set_add (hd (pendingJobs s)) (runningJobs s)\<rparr>)"
    using m_running_add [OF a, of "hd (pendingJobs s)"] assms(2) by simp
  show "moment opts (pump_body s)"
    using moment_runJob [OF b, of "hd (pendingJobs s)"] by (simp add: pump_body_def Let_def)
qed

lemma moment_pump: "moment opts s \<Longrightarrow> moment opts (pump s)"
proof (induction s rule: pump.induct)
  case (1 s)
  show ?case
  proof (cases "of_nat (set_size (runningJobs s)) < concurrency s \<and> length (pendingJobs s) > 0")
    case True
    with "1.prems" have "moment opts (pump_body s)"
      by (simp add: moment_inside_loop(3))
    with True "1.IH" have "moment opts (pump (pump_body s))"
      by simp
    with True show ?thesis
      by (simp add: pump.simps [of s])
  next
    case False
    with "1.prems" show ?thesis
      by (auto simp: pump.simps [of s])
  qed
qed

lemma moment_processQueue: "moment opts s \<Longrightarrow> moment opts (processQueue s)"
  by (simp add: processQueue_def checkIdle_if_empty_def moment_pump moment_checkIdle)

lemma moment_add: "moment opts s \<Longrightarrow> moment opts (snd (add f ao s))"
proof -
  assume m: "moment opts s"
  let ?i = "nextJobId s"
  have a: "moment opts (s\<lparr>nextJobId := ?i + 1\<rparr>)"
    using m by (rule m_nextJobId)
  have b: "moment opts (s\<lparr>nextJobId := ?i + 1, jobs := AList.update ?i (new_job ?i f ao) (jobs s)\<rparr>)"
    using moment_jobs [OF a, of "AList.update ?i (new_job ?i f ao) (jobs s)"] by simp
  have c: "moment opts (s\<lparr>nextJobId := ?i + 1, jobs := AList.update ?i (new_job ?i f ao) (jobs s),
                            pendingJobs := pendingJobs s @ [?i]\<rparr>)"
    using m_push [OF b, of ?i] by simp
  have d: "moment opts (s\<lparr>nextJobId := ?i + 1, jobs := AList.update ?i (new_job ?i f ao) (jobs s),
                            pendingJobs := pendingJobs s @ [?i],
                            stats := (stats s)\<lparr>totalJobs := totalJobs (stats s) + 1\<rparr>\<rparr>)"
    using m_totalJobs [OF c] by simp
  note e = m_sort [OF d]
  note g = moment_processQueue [OF e]
  from m e g show ?thesis
    by (simp add: add_def Let_def)
qed

lemma moment_start: "moment opts s \<Longrightarrow> moment opts (start s)"
  by (simp add: start_def moment_processQueue m_isRunning)

lemma moment_new_Scheduler: "moment opts (new_Scheduler opts)"
  by (simp add: new_Scheduler_def Let_def moment_start m_fields)

lemma moment_cancel_job_object: "moment opts s \<Longrightarrow> moment opts (snd (cancel_job_object i s))"
  by (auto simp: cancel_job_object_def m_outside split: option.splits prod.splits)

lemma moment_fold_cancel:
  "moment opts s \<Longrightarrow> moment opts (fold (\<lambda>i t. snd (cancel_job_object i t)) is s)"
  by (induction "is" arbitrary: s) (simp_all add: moment_cancel_job_object)

lemma moment_stop: "moment opts s \<Longrightarrow> moment opts (stop s)"
proof -
  assume m: "moment opts s"
  have a: "moment opts (s\<lparr>isRunning := False\<rparr>)"
    using m by (rule m_isRunning)
  note b = moment_fold_cancel [OF a, of "pendingJobs (s\<lparr>isRunning := False\<rparr>)"]
  note c = m_empty [OF b]
  show ?thesis
    unfolding stop_def Let_def by (rule moment_fold_cancel [OF c])
qed

lemma moment_onIdle: "moment opts s \<Longrightarrow> moment opts (snd (onIdle s))"
proof (cases "idleHope s")
  case (Some h)
  assume "moment opts s"
  with Some show ?thesis by (simp add: onIdle_def)
next
  case None
  assume m: "moment opts s"
  have "moment opts (s\<lparr>idleResolve := Some h, rt := r, idleHope := Some h\<rparr>)" for r h
    using m_idleHope [OF moment_rt [OF m_idleResolve [OF m, of "Some h"], of r], of "Some h"]
    by simp
  moreover have "moment opts (s\<lparr>rt := r, idleResolve := Some h, idleHope := Some h\<rparr>)" for r h
    using m_idleHope [OF m_idleResolve [OF moment_rt [OF m, of r], of "Some h"], of "Some h"]
    by simp
  ultimately show ?thesis
    using None
    by (auto simp: onIdle_def Let_def split: prod.splits)
qed

lemma moment_cancelJob: "moment opts s \<Longrightarrow> moment opts (snd (cancelJob i s))"
proof -
  assume m: "moment opts s"
  obtain c t where ct: "cancel_job_object i s = (c, t)"
    by (cases "cancel_job_object i s")
  have t: "moment opts t"
    using moment_cancel_job_object [OF m, of i] ct by simp
  note a = m_splice [OF t, of i]
  note b = m_running_delete [OF a, of i]
  note d = m_canceledJobs [OF b]
  note e = moment_checkIdle [OF d]
  from m t e ct show ?thesis
    by (simp add: cancelJob_def Let_def split: option.splits)
qed

lemma moment_cancel_counted:
  "moment opts (snd acc) \<Longrightarrow> moment opts (snd (cancel_counted i acc))"
proof -
  assume m: "moment opts (snd acc)"
  obtain ids s where acc: "acc = (ids, s)" by (cases acc)
  obtain c t where ct: "cancel_job_object i s = (c, t)"
    by (cases "cancel_job_object i s")
  have t: "moment opts t"
    using moment_cancel_job_object [of opts s i] m acc ct by simp
  note d = m_canceledJobs [OF t]
  from t d acc ct show ?thesis
    by (simp add: cancel_counted_def)
qed

lemma moment_fold_cancel_counted:
  "moment opts (snd acc) \<Longrightarrow> moment opts (snd (fold cancel_counted is acc))"
  by (induction "is" arbitrary: acc) (simp_all add: moment_cancel_counted)

lemma moment_cancelAll: "moment opts s \<Longrightarrow> moment opts (snd (cancelAll s))"
proof -
  assume m: "moment opts s"
  obtain ids1 s1 where f1: "fold cancel_counted (pendingJobs s) ([], s) = (ids1, s1)"
    by (cases "fold cancel_counted (pendingJobs s) ([], s)")
  have s1: "moment opts s1"
    using moment_fold_cancel_counted [of opts "([], s)" "pendingJobs s"] m f1 by simp
  note s2 = m_empty [OF s1]
  obtain ids2 s3 where f2: "fold cancel_counted (runningJobs (s1\<lparr>pendingJobs := []\<rparr>))
        (ids1, s1\<lparr>pendingJobs := []\<rparr>) = (ids2, s3)"
    by (cases "fold cancel_counted (runningJobs (s1\<lparr>pendingJobs := []\<rparr>)) (ids1, s1\<lparr>pendingJobs := []\<rparr>)")
  have s3: "moment opts s3"
    using moment_fold_cancel_counted [of opts "(ids1, s1\<lparr>pendingJobs := []\<rparr>)"
              "runningJobs (s1\<lparr>pendingJobs := []\<rparr>)"] s2 f2 by simp
  note s4 = m_running_clear [OF s3]
  note s5 = moment_checkIdle [OF s4]
  from f1 f2 s5 show ?thesis
    by (simp add: cancelAll_def Let_def)
qed

lemma moment_jobCompleted: "moment opts s \<Longrightarrow> moment opts (jobCompleted i res s)"
proof -
  assume m: "moment opts s"
  note a = m_running_delete [OF m, of i]
  show ?thesis
  proof (cases "map_of (jobs s) i")
    case None
    with moment_processQueue [OF a] show ?thesis
      by (simp add: jobCompleted_def Let_def)
  next
    case (Some j)
    note b = moment_jobs [OF a, of "AList.update i (j\<lparr>j_result := res, j_state := Completed\<rparr>) (jobs s)"]
    note c = m_archive [OF b, of i]
    note d = m_completedJobs [OF c]
    note e = moment_processQueue [OF d]
    from Some e show ?thesis
      by (simp add: jobCompleted_def Let_def)
  qed
qed

lemma moment_jobFailed: "moment opts s \<Longrightarrow> moment opts (jobFailed i err s)"
proof -
  assume m: "moment opts s"
  show ?thesis
  proof (cases "map_of (jobs s) i")
    case None
    with m show ?thesis by (simp add: jobFailed_def)
  next
    case (Some j)
    show ?thesis
    proof (cases "int (attempts j) \<le> retries (options j) \<and> \<not> is_JobTimeoutError err")
      case True
      with Some m show ?thesis
        by (simp add: jobFailed_def m_outside)
    next
      case False
      note a = moment_jobs [OF m, of "AList.update i (j\<lparr>j_state := Failed, j_error := err\<rparr>) (jobs s)"]
      note b = m_running_delete [OF a, of i]
      note c = m_archive [OF b, of i]
      note d = m_failedJobs [OF c]
      note e = moment_processQueue [OF d]
      from Some False e show ?thesis
        by (auto simp: jobFailed_def)
    qed
  qed
qed

lemma moment_retry_job: "moment opts s \<Longrightarrow> moment opts (retry_job i s)"
  unfolding retry_job_def
  by (intro moment_processQueue m_sort m_push)

lemma moment_run_handler: "moment opts s \<Longrightarrow> moment opts (run_handler cb src s)"
  by (cases cb)
     (simp_all add: moment_jobCompleted moment_jobFailed moment_rt m_outside
        job_onFulfilled_def job_onRejected_def)

lemma moment_run_microtask: "moment opts s \<Longrightarrow> moment opts (run_microtask m s)"
  by (simp add: run_microtask_def moment_run_handler split: option.splits)

lemma moment_fire: "moment opts s \<Longrightarrow> moment opts (fire cb s)"
  by (cases cb) (simp_all add: moment_retry_job moment_rt)

lemma moment_turn:
  assumes "moment opts s" and "turn s = Some s'"
  shows "moment opts s'"
proof (cases "microtasks (rt s)")
  case (Cons m ms)
  with assms(2) have "s' = run_microtask m (s\<lparr>rt := (rt s)\<lparr>microtasks := ms\<rparr>\<rparr>)"
    by (simp add: turn_def)
  with assms(1) show ?thesis
    by (simp add: moment_run_microtask moment_rt)
next
  case Nil
  with assms(2) obtain t due cb where
    "s' = fire cb (s\<lparr>rt := (clearTimeout t (rt s))\<lparr>clock := max (clock (rt s)) due\<rparr>\<rparr>)"
    by (auto simp: turn_def split: option.splits)
  with assms(1) show ?thesis
    by (simp add: moment_fire moment_rt)
qed

lemma moment_add_ABCD: "moment opts s \<Longrightarrow> moment opts (add_ABCD s)"
  by (simp add: add_ABCD_def case_prod_beta moment_add)

lemma set_size_set_add: "set_size (set_add x xs) \<le> Suc (set_size xs)"
  by (simp add: set_size_def set_add_def)

lemma set_size_set_delete: "set_size (set_delete x xs) \<le> set_size xs"
  by (simp add: set_size_def set_delete_def)

section \<open>Settlement guard\<close>

lemma h_reject_settled:
  "h_settled h \<Longrightarrow> h_reject False h r = Inr (h, [Warn ''Hope rejected after being settled (ignored)''])"
  by (simp add: h_reject_def)

lemma h_resolve_settled:
  "h_settled h \<Longrightarrow> h_resolve False self h v = Inr (h, [Warn ''Hope resolved after being settled (ignored)''])"
  by (simp add: h_resolve_def h_resolve_with_def)

lemma deliver_all_settled: "h_settled h \<Longrightarrow> deliver_all self h ds = h"
proof (induction ds)
  case Nil
  show ?case by simp
next
  case (Cons d ds)
  then show ?case
    by (cases d) (simp_all add: h_reject_settled h_resolve_settled)
qed

lemma h_resolve_fulfilled_plain:
  assumes "h_resolve strict self h v = Inr (h', es)" and "h_state h = PENDING"
    and "h_state h' = FULFILLED"
  shows "\<not> is_thenable v \<and> h_value h' = v"
  using assms
  by (auto simp: h_resolve_def h_resolve_with_def h_reject_def callSettleCallbacks_def
      callFulfilledCallbacks_def callRejectedCallbacks_def Let_def
      split: if_splits)

lemma h_resolve_thenable_pending:
  assumes "is_thenable x" and "x \<noteq> HopeRef self" and "\<not> h_settled h"
  shows "h_resolve strict self h x = Inr (h\<lparr>h_settled := True\<rparr>, [CallThen x self])"
  using assms by (simp add: h_resolve_def h_resolve_with_def)

lemma h_resolve_self_not_rejected:
  assumes "\<not> h_settled h"
  shows "h_resolve False self h (HopeRef self) =
           Inr (h\<lparr>h_settled := True\<rparr>, [Warn ''Hope rejected after being settled (ignored)''])"
    and "h_resolve True self h (HopeRef self) = Inl (AlreadySettled, h\<lparr>h_settled := True\<rparr>)"
  using assms by (simp_all add: h_resolve_def h_resolve_with_def h_reject_def)

text \<open>
  In \<open>const p2 = p1.then(() => p2)\<close> the handler returns the chained Hope itself.
  \<open>_resolvePromise\<close> compares the value with the Hope that \<open>then\<close> was called on, not
  with the chained one: it subscribes \<open>p2\<close> to itself and calls neither \<open>resolve\<close> nor
  \<open>reject\<close>.
\<close>

lemma h_resolvePromise_chained_self:
  "chained \<noteq> this \<Longrightarrow> h_resolvePromise this (HopeRef chained) = Subscribe (HopeRef chained)"
  by (simp add: h_resolvePromise_def)

section \<open>Resolution with a thenable\<close>

text \<open>
  C1. The claim: a Hope whose resolve callback receives a thenable calls its chain
  method once and takes the thenable's first settlement as its own outcome. On the
  code: for \<open>const t = Hope.resolve(1); const d = new Hope(resolve => resolve(t))\<close>,
  with \<open>d\<close> of identity 0 and \<open>t\<close> of identity 1, \<open>d._resolve(t)\<close> sets \<open>_settled\<close>
  and calls \<open>t.then\<close> once; when \<open>t\<close> then delivers its fulfilment value 1 through
  \<open>val => this._resolve(val)\<close>, the settled guard drops it, and so it drops every
  later delivery: \<open>d\<close> stays \<open>PENDING\<close>, in strict mode the delivery throws.
\<close>

theorem C1_resolve_thenable_stays_pending:
  "h_resolve False 0 (new_hope :: unit hope) (HopeRef 1)
     = Inr (new_hope\<lparr>h_settled := True\<rparr>, [CallThen (HopeRef 1) 0])
   \<and> deliver False 0 (new_hope\<lparr>h_settled := True\<rparr> :: unit hope) (OnFulfilled (Num 1))
     = Inr (new_hope\<lparr>h_settled := True\<rparr>, [Warn ''Hope resolved after being settled (ignored)''])
   \<and> deliver True 0 (new_hope\<lparr>h_settled := True\<rparr> :: unit hope) (OnFulfilled (Num 1))
     = Inl (AlreadySettled, new_hope\<lparr>h_settled := True\<rparr>)
   \<and> h_state (deliver_all 0 (new_hope\<lparr>h_settled := True\<rparr> :: unit hope) ds) = PENDING"
proof -
  let ?h = "new_hope\<lparr>h_settled := True\<rparr> :: unit hope"
  have a: "h_resolve False 0 (new_hope :: unit hope) (HopeRef 1) = Inr (?h, [CallThen (HopeRef 1) 0])"
    by (simp add: h_resolve_def h_resolve_with_def new_hope_def)
  have b: "deliver False 0 ?h (OnFulfilled (Num 1))
             = Inr (?h, [Warn ''Hope resolved after being settled (ignored)''])"
    by (simp add: h_resolve_def h_resolve_with_def)
  have c: "deliver True 0 ?h (OnFulfilled (Num 1)) = Inl (AlreadySettled, ?h)"
    by (simp add: h_resolve_def h_resolve_with_def)
  have "deliver_all 0 ?h ds = ?h"
    by (rule deliver_all_settled) simp
  then have d: "h_state (deliver_all 0 ?h ds) = PENDING"
    by (simp add: new_hope_def)
  from a b c d show ?thesis by blast
qed

section \<open>Self-resolution\<close>

text \<open>
  C2. The claim: resolving a Hope with itself rejects it with a self-resolution type
  error. On the code: for \<open>let r; const d = new Hope(res => { r = res }); r(d)\<close>, with
  \<open>d\<close> of identity 0, \<open>_resolve\<close> has set \<open>_settled\<close> when it calls
  \<open>this._reject(new TypeError(...))\<close>, so \<open>_reject\<close> takes its already-settled branch:
  \<open>d\<close> is left \<open>PENDING\<close> with no reason, and in strict mode \<open>_resolve\<close> throws
  \<open>Error('Hope already settled')\<close> instead, leaving \<open>d\<close> the same.
\<close>

theorem C2_self_resolution_not_rejected:
  "h_resolve False 0 (new_hope :: unit hope) (HopeRef 0)
     = Inr (new_hope\<lparr>h_settled := True\<rparr>, [Warn ''Hope rejected after being settled (ignored)''])
   \<and> h_state (new_hope\<lparr>h_settled := True\<rparr> :: unit hope) = PENDING
   \<and> h_reason (new_hope\<lparr>h_settled := True\<rparr> :: unit hope) = Undefined
   \<and> h_resolve True 0 (new_hope :: unit hope) (HopeRef 0)
     = Inl (AlreadySettled, new_hope\<lparr>h_settled := True\<rparr>)"
  by (simp add: h_resolve_def h_resolve_with_def h_reject_def new_hope_def)

section \<open>Adoption of a Hope, run by the host\<close>

text \<open>
  The resolution of C1 in the runtime: \<open>t\<close> is a Hope fulfilled with 1, \<open>d\<close> a
  pending Hope; \<open>d._resolve(t)\<close> registers on \<open>t\<close>, the host runs the microtask, which
  calls \<open>d._resolve(1)\<close>, and comes to rest with \<open>d\<close> still pending.
\<close>

lemma adopted_hope_pending_at_rest:
  "(case alloc (settled_hope FULFILLED (Num 1)) new_runtime of (t, r1) \<Rightarrow>
    case alloc new_hope r1 of (d, r2) \<Rightarrow>
      map_option (\<lambda>s. map_option h_state (map_of (hopes (rt s)) d))
        (run 5 ((new_Scheduler default_scheduler)\<lparr>rt := rt_resolve d (HopeRef t) r2\<rparr>)))
   = Some (Some PENDING)"
  by code_simp

section \<open>Retry\<close>

text \<open>
  C3. The claim: a task that rejects on its first two attempts and fulfills with
  \<open>'ok'\<close> on the third, added with \<open>retries = 2\<close> and \<open>retryDelay = 0\<close>, ends
  \<open>Completed\<close> with \<open>attempts = 3\<close>, \<open>completedJobs = 1\<close> and \<open>failedJobs = 0\<close>. On the
  code, with \<open>new Scheduler()\<close> (concurrency 1): the retry branch of \<open>_jobFailed\<close> sets
  the job back to \<open>'pending'\<close> but leaves its id in \<open>runningJobs\<close>, so when the timer
  re-queues the job the loop of \<open>_processQueue\<close> finds \<open>runningJobs.size < concurrency\<close>
  false and never launches it. The host comes to rest with the job \<open>Pending\<close> after one
  attempt, in both \<open>pendingJobs\<close> and \<open>runningJobs\<close>, nothing completed.
\<close>

theorem C3_retry_stuck_pending:
  "map_option
     (\<lambda>s. (map_option j_state (getJob 1 s), map_option attempts (getJob 1 s),
           s_completedJobs (stats s), s_failedJobs (stats s),
           pendingJobs s, runningJobs s, calls (rt s)))
     (run 10 (snd (add flaky_task (no_options\<lparr>o_retries := Some 2, o_retryDelay := Some 0\<rparr>)
                    (new_Scheduler default_scheduler))))
   = Some (Some Pending, Some 1, 0, 0, [1], [1], [1])"
  by code_simp

section \<open>Job timeout\<close>

text \<open>
  C4. The claim: a job that fails because its timeout expired is never retried. On the
  code: \<open>Job.run\<close> decorates its Hope with \<open>timeout(ms, message)\<close>, whose expiry
  rejects with a plain \<open>Error(message)\<close>; no \<open>JobTimeoutError\<close> is ever constructed, so
  the test \<open>error instanceof JobTimeoutError\<close> of \<open>_jobFailed\<close> is false and the retry
  branch is taken. With concurrency 2, a task that never settles, \<open>timeout = 100\<close>,
  \<open>retries = 1\<close>: the task function is called twice.
\<close>

theorem C4_timeout_is_retried:
  "map_option
     (\<lambda>s. (calls (rt s), map_option attempts (getJob 1 s), map_option j_error (getJob 1 s)))
     (run 10 (snd (add hanging_task
                    (no_options\<lparr>o_timeout := Some 100, o_retries := Some 1, o_retryDelay := Some 0\<rparr>)
                    (new_Scheduler (default_scheduler\<lparr>o_concurrency := Some 2\<rparr>)))))
   = Some ([1, 1], Some 2, Some (Error ''Job job-1 timed out after 100ms''))"
  by code_simp

section \<open>Priority\<close>

text \<open>
  C5. The claim: with concurrency 1 and tasks A, B, C, D added with priorities 1, 10,
  5, 100, the tasks execute in the order D, B, C, A. On the code, with
  \<open>new Scheduler({ concurrency: 1 })\<close>: the scheduler starts itself, so the first
  \<open>add\<close> launches A at once, before B, C and D are queued; the order is A, D, B, C.
\<close>

theorem C5_first_added_runs_first:
  "map_option executionOrder
     (run 20 (add_ABCD (new_Scheduler (default_scheduler\<lparr>o_concurrency := Some 1\<rparr>))))
   = Some [Str ''A'', Str ''D'', Str ''B'', Str ''C'']"
  by code_simp

section \<open>Totals\<close>

text \<open>
  C6. The claim: in every reachable state \<open>totalJobs\<close> is the sum of the pending and
  running jobs and the completed, failed and canceled counters. On the code, for
  \<open>new Scheduler({ autoStart: false })\<close>, one \<open>add\<close>, then \<open>stop()\<close>: \<open>stop\<close> cancels
  the pending job and empties the queue without counting it, so \<open>totalJobs\<close> is 1 and
  the sum is 0.
\<close>

theorem C6_stop_drops_pending_uncounted:
  "getStatus (stop (snd (add hanging_task no_options
                 (new_Scheduler (default_scheduler\<lparr>o_autoStart := Some False\<rparr>)))))
   = (False, 0, 0, 0,
      \<lparr> totalJobs = 1, s_completedJobs = 0, s_failedJobs = 0, s_canceledJobs = 0 \<rparr>)"
  by code_simp

section \<open>Idle signal\<close>

text \<open>
  C7. The claim: \<open>onIdle()\<close> creates a Hope that fulfills when nothing runs and nothing
  waits, and after it resolves the slot is cleared, so that a later call creates a fresh
  Hope. On the code: \<open>onIdle()\<close> on an idle scheduler resolves the new Hope in its
  executor and then stores it in \<open>_idleHope\<close>; the slot is not cleared. After an
  \<open>add\<close> of a task that never settles, a second \<open>onIdle()\<close> returns the same Hope,
  already fulfilled, while job 1 runs.
\<close>

theorem C7_idle_slot_not_cleared:
  "(case onIdle (new_Scheduler default_scheduler) of (h1, s1) \<Rightarrow>
    case add hanging_task no_options s1 of (_, s2) \<Rightarrow>
    case onIdle s2 of (h2, s3) \<Rightarrow>
      (map_option h_state (map_of (hopes (rt s1)) h1), idleHope s1, h2 = h1,
        runningJobs s3, map_option h_state (map_of (hopes (rt s3)) h2)))
   = (Some FULFILLED, Some 0, True, [1], Some FULFILLED)"
  by code_simp

section \<open>Concurrency bound\<close>

text \<open>
  C8. The claim: for every scheduler, at every moment, the number of running jobs does
  not exceed the configured concurrency. On the code: the constructor keeps the number
  it is given and checks nothing, and the loop of \<open>_processQueue\<close> launches a job
  while \<open>runningJobs.size < concurrency\<close>. With \<open>new Scheduler({ concurrency: 0.5 })\<close>
  the first \<open>add\<close> launches its job, as 0 < 0.5, and one running job exceeds 0.5.
  With \<open>new Scheduler({ concurrency: -1 })\<close> the empty running set exceeds the limit
  as soon as the scheduler is constructed.
\<close>

theorem C8_fraction_and_negative_exceeded:
  "moment (default_scheduler\<lparr>o_concurrency := Some (1 / 2)\<rparr>)
     (snd (add hanging_task no_options
             (new_Scheduler (default_scheduler\<lparr>o_concurrency := Some (1 / 2)\<rparr>))))
   \<and> runningJobs (snd (add hanging_task no_options
         (new_Scheduler (default_scheduler\<lparr>o_concurrency := Some (1 / 2)\<rparr>)))) = [1]
   \<and> \<not> of_nat (set_size (runningJobs (snd (add hanging_task no_options
           (new_Scheduler (default_scheduler\<lparr>o_concurrency := Some (1 / 2)\<rparr>))))))
         \<le> configured_concurrency (default_scheduler\<lparr>o_concurrency := Some (1 / 2)\<rparr>)
   \<and> moment (default_scheduler\<lparr>o_concurrency := Some (- 1)\<rparr>)
       (new_Scheduler (default_scheduler\<lparr>o_concurrency := Some (- 1)\<rparr>))
   \<and> runningJobs (new_Scheduler (default_scheduler\<lparr>o_concurrency := Some (- 1)\<rparr>)) = []
   \<and> \<not> of_nat (set_size (runningJobs
           (new_Scheduler (default_scheduler\<lparr>o_concurrency := Some (- 1)\<rparr>))))
         \<le> configured_concurrency (default_scheduler\<lparr>o_concurrency := Some (- 1)\<rparr>)"
proof -
  have a: "moment (default_scheduler\<lparr>o_concurrency := Some (1 / 2)\<rparr>)
     (snd (add hanging_task no_options
             (new_Scheduler (default_scheduler\<lparr>o_concurrency := Some (1 / 2)\<rparr>))))"
    by (intro moment_add moment_new_Scheduler)
  have b: "configured_concurrency (default_scheduler\<lparr>o_concurrency := Some (1 / 2)\<rparr>) = 1 / 2"
    by (simp add: configured_concurrency_def)
  have c: "runningJobs (snd (add hanging_task no_options
         (new_Scheduler (default_scheduler\<lparr>o_concurrency := Some (1 / 2)\<rparr>)))) = [1]"
    by code_simp
  have d: "moment (default_scheduler\<lparr>o_concurrency := Some (- 1)\<rparr>)
       (new_Scheduler (default_scheduler\<lparr>o_concurrency := Some (- 1)\<rparr>))"
    by (rule moment_new_Scheduler)
  have e: "configured_concurrency (default_scheduler\<lparr>o_concurrency := Some (- 1)\<rparr>) = - 1"
    by (simp add: configured_concurrency_def)
  have f: "runningJobs (new_Scheduler (default_scheduler\<lparr>o_concurrency := Some (- 1)\<rparr>)) = []"
    by code_simp
  from a d show ?thesis
    by (simp add: b c e f set_size_def)
qed

text \<open>
  C8, amended: for every scheduler whose configured concurrency is a whole number that
  is not negative, at every moment of its execution the number of running jobs does not
  exceed the configured concurrency. The limit that the loop reads is the configured
  one at every moment.
\<close>

theorem C8_running_within_whole_concurrency:
  assumes "moment opts s" and "configured_concurrency opts = of_nat n"
  shows "concurrency s = configured_concurrency opts
       \<and> of_nat (set_size (runningJobs s)) \<le> configured_concurrency opts"
  using assms(1)
proof (induction rule: moment.induct)
  case m_fields
  show ?case
    using assms(2) by (simp add: Scheduler_fields_def set_size_def)
next
  case (m_running_add s i)
  from m_running_add.hyps(2) m_running_add.IH assms(2)
  have "set_size (runningJobs s) < n"
    by simp
  moreover have "set_size (set_add i (runningJobs s)) \<le> Suc (set_size (runningJobs s))"
    by (rule set_size_set_add)
  ultimately have "set_size (set_add i (runningJobs s)) \<le> n"
    by simp
  then have "(of_nat (set_size (set_add i (runningJobs s))) :: rat) \<le> of_nat n"
    by (simp only: of_nat_le_iff)
  with m_running_add.IH assms(2) show ?case
    by simp
next
  case (m_running_delete s i)
  have "set_size (set_delete i (runningJobs s)) \<le> set_size (runningJobs s)"
    by (rule set_size_set_delete)
  then have "(of_nat (set_size (set_delete i (runningJobs s))) :: rat)
               \<le> of_nat (set_size (runningJobs s))"
    by (simp only: of_nat_le_iff)
  with m_running_delete.IH show ?case
    by simp
next
  case (m_running_clear s)
  then show ?case
    using assms(2) by (simp add: set_size_def)
next
  case (m_sort s)
  then show ?case by (simp add: sort_pending_def)
qed simp_all

theorem C8_running_within_whole_concurrency_witness:
  "moment (default_scheduler\<lparr>o_concurrency := Some 2\<rparr>)
     (add_ABCD (new_Scheduler (default_scheduler\<lparr>o_concurrency := Some 2\<rparr>)))
   \<and> configured_concurrency (default_scheduler\<lparr>o_concurrency := Some 2\<rparr>) = of_nat 2
   \<and> concurrency (add_ABCD (new_Scheduler (default_scheduler\<lparr>o_concurrency := Some 2\<rparr>)))
       = configured_concurrency (default_scheduler\<lparr>o_concurrency := Some 2\<rparr>)
   \<and> of_nat (set_size (runningJobs
         (add_ABCD (new_Scheduler (default_scheduler\<lparr>o_concurrency := Some 2\<rparr>)))))
       \<le> configured_concurrency (default_scheduler\<lparr>o_concurrency := Some 2\<rparr>)
   \<and> runningJobs (add_ABCD (new_Scheduler (default_scheduler\<lparr>o_concurrency := Some 2\<rparr>)))
       = [1, 2]"
proof -
  have m: "moment (default_scheduler\<lparr>o_concurrency := Some 2\<rparr>)
     (add_ABCD (new_Scheduler (default_scheduler\<lparr>o_concurrency := Some 2\<rparr>)))"
    by (intro moment_add_ABCD moment_new_Scheduler)
  have c: "configured_concurrency (default_scheduler\<lparr>o_concurrency := Some 2\<rparr>) = of_nat 2"
    by (simp add: configured_concurrency_def)
  have r: "runningJobs (add_ABCD (new_Scheduler (default_scheduler\<lparr>o_concurrency := Some 2\<rparr>)))
             = [1, 2]"
    by code_simp
  from C8_running_within_whole_concurrency [OF m c] m c r show ?thesis
    by blast
qed

section \<open>The combinator any, run by the host\<close>

text \<open>
  With the default configuration \<open>Hope.any\<close> behaves as described on these inputs:
  the empty array, in every runtime; a pending Hope that then fulfills; two pending
  Hopes of which the second fulfills first; two rejected Hopes; two pending Hopes
  rejected in the reverse order, whose reasons are collected in input order; plain
  values.
\<close>

lemma any_empty:
  "outcome (fst (Hope_any [] r)) (host (snd (Hope_any [] r)))
     = Some (REJECTED, Undefined, AggregateError [] ''All promises were rejected'')"
  by (simp add: outcome_def host_def Hope_any_def alloc_def rt_reject_def h_reject_def new_hope_def
        callSettleCallbacks_def callRejectedCallbacks_def Let_def update_conv')

lemma any_first_fulfilment_unfrozen:
  "(case alloc new_hope new_runtime of (p, r1) \<Rightarrow>
    case Hope_any [HopeRef p] r1 of (a, r2) \<Rightarrow>
      map_option (\<lambda>s. (outcome p s, outcome a s))
        (run 5 (host (rt_resolve p (Obj 1) r2))))
   = Some (Some (FULFILLED, Obj 1, Undefined), Some (FULFILLED, Obj 1, Undefined))"
  by code_simp

lemma any_first_of_two:
  "(case alloc new_hope new_runtime of (p, r1) \<Rightarrow>
    case alloc new_hope r1 of (q, r2) \<Rightarrow>
    case Hope_any [HopeRef p, HopeRef q] r2 of (a, r3) \<Rightarrow>
      map_option (\<lambda>s. outcome a s)
        (run 9 (host (rt_resolve p (Num 7) (rt_resolve q (Str ''second'') r3)))))
   = Some (Some (FULFILLED, Str ''second'', Undefined))"
  by code_simp

lemma any_all_rejected:
  "(case Hope_reject (Str ''a'') new_runtime of (p, r1) \<Rightarrow>
    case Hope_reject (Str ''b'') r1 of (q, r2) \<Rightarrow>
    case Hope_any [HopeRef p, HopeRef q] r2 of (a, r3) \<Rightarrow>
      map_option (\<lambda>s. outcome a s) (run 9 (host r3)))
   = Some (Some (REJECTED, Undefined,
        AggregateError [Str ''a'', Str ''b''] ''All promises were rejected''))"
  by code_simp

lemma any_rejections_in_input_order:
  "(case alloc new_hope new_runtime of (p, r1) \<Rightarrow>
    case alloc new_hope r1 of (q, r2) \<Rightarrow>
    case Hope_any [HopeRef p, HopeRef q] r2 of (a, r3) \<Rightarrow>
      map_option (\<lambda>s. outcome a s)
        (run 9 (host (rt_reject p (Str ''first input'')
                        (rt_reject q (Str ''second input'') r3)))))
   = Some (Some (REJECTED, Undefined,
        AggregateError [Str ''first input'', Str ''second input'']
          ''All promises were rejected''))"
  by code_simp

lemma any_plain_values:
  "(case Hope_any [Num 5, Str ''x''] new_runtime of (a, r) \<Rightarrow>
      map_option (\<lambda>s. outcome a s) (run 9 (host r)))
   = Some (Some (FULFILLED, Num 5, Undefined))"
  by code_simp

text \<open>
  C9. The claim: for every iterable, \<open>any(iter)\<close> fulfills with the value of the first
  input to fulfill, and rejects with an aggregate error of all reasons when all inputs
  reject. On the code, with \<open>Hope.freezeValues = true\<close>: for
  \<open>let r; const p = new Hope(res => { r = res }); const a = Hope.any([p])\<close> and then
  \<open>r({ a: 1 })\<close>, the method \<open>_resolve\<close> of \<open>p\<close> sets its state to \<open>'fulfilled'\<close> and
  calls \<open>this._deepFreeze(value)\<close>; \<open>_deepFreeze\<close> is a static method, so the call on the
  instance throws a \<open>TypeError\<close> before the callbacks of \<open>p\<close> are called. The handler
  that \<open>any\<close> registered on \<open>p\<close> never runs: the host comes to rest, with no microtask
  and no timer left, \<open>p\<close> fulfilled with the object and \<open>a\<close> pending.
\<close>

theorem C9_any_pending_after_input_fulfilled:
  "(case alloc new_hope (new_runtime\<lparr>freezeValues := True\<rparr>) of (p, r1) \<Rightarrow>
    case Hope_any [HopeRef p] r1 of (a, r2) \<Rightarrow>
      map_option (\<lambda>s. (outcome p s, outcome a s, microtasks (rt s), timers (rt s)))
        (run 5 (host (rt_resolve p (Obj 1) r2))))
   = Some (Some (FULFILLED, Obj 1, Undefined), Some (PENDING, Undefined, Undefined), [], [])"
  by code_simp

section \<open>Admission to a full queue\<close>

text \<open>
  C10. When the pending queue holds at least \<open>maxQueueSize\<close> jobs, \<open>add\<close> throws
  \<open>SchedulerError('Queue is full')\<close> and the scheduler is as before the call: no id is
  minted, \<open>jobs\<close>, \<open>pendingJobs\<close> and \<open>stats.totalJobs\<close> are untouched.
\<close>

theorem C10_add_full_queue:
  assumes "maxQueueSize s = Some m" and "m \<le> length (pendingJobs s)"
  shows "add f opts s = (Inl (SchedulerError ''Queue is full''), s)"
  using assms by (simp add: add_def)

theorem C10_add_full_queue_witness:
  "maxQueueSize full_scheduler = Some 1
   \<and> 1 \<le> length (pendingJobs full_scheduler)
   \<and> add hanging_task no_options full_scheduler
       = (Inl (SchedulerError ''Queue is full''), full_scheduler)"
proof -
  have m: "maxQueueSize full_scheduler = Some 1" by code_simp
  have l: "1 \<le> length (pendingJobs full_scheduler)" by code_simp
  show ?thesis
    using C10_add_full_queue [OF m l, of hanging_task no_options] m l by simp
qed

end
